theory Spec2Isabelle
  imports Complex_Main "HOL-Library.Word" "HOL-Library.AList"
begin

section \<open>Soft red-list watermarking: the model of \<open>watermark.py\<close>\<close>

text \<open>
  Conventions of the embedding.
  \<^item> A Python \<open>str\<close> is represented by its UTF-8 bytes, as an Isabelle \<open>string\<close>;
    UTF-8 encoding distributes over concatenation, so \<open>(prev_token + token).encode()\<close>
    is the encoding of the concatenated representation.
  \<^item> A Python \<open>float\<close> is represented by a \<open>real\<close>: arithmetic is exact (rounding,
    infinities and NaN are not modelled), but every exception that a float operation of
    the source can raise is a branch of the model: \<open>ZeroDivisionError\<close> of \<open>/\<close>,
    \<open>OverflowError\<close> of \<open>math.exp\<close>, \<open>ValueError\<close> of \<open>math.sqrt\<close>.
  \<^item> \<open>hmac.new(key, data, hashlib.sha256).digest()\<close> belongs to the Python standard
    library; it is the parameter \<open>H\<close> (key first, message second) of every function
    that reaches it.
  \<^item> The value returned by \<open>random()\<close> inside \<open>random.choices\<close> is the parameter \<open>r\<close>.
  \<^item> The global dictionary \<open>MODEL_KEYS\<close> is passed explicitly.
  \<^item> A \<open>dict[str, float]\<close> is the list of its items in insertion order; its keys are
    distinct.
\<close>

subsection \<open>Data\<close>

type_synonym byte = "8 word"
type_synonym bytes = "byte list"
type_synonym hmac = "bytes \<Rightarrow> bytes \<Rightarrow> bytes"

datatype py_error =
    KeyError
  | ValueError
  | IndexError
  | ZeroDivisionError
  | OverflowError
  | ValidationError

text \<open>Python's exception hierarchy: the subclasses of \<open>ArithmeticError\<close>.\<close>

fun is_ArithmeticError :: "py_error \<Rightarrow> bool" where
  "is_ArithmeticError ZeroDivisionError = True"
| "is_ArithmeticError OverflowError = True"
| "is_ArithmeticError KeyError = False"
| "is_ArithmeticError ValueError = False"
| "is_ArithmeticError IndexError = False"
| "is_ArithmeticError ValidationError = False"

text \<open>The value stored under a model id: \<open>{vocab, secret, gamma, delta}\<close>.\<close>

record model_config =
  vocab :: "string list"
  secret :: bytes
  gamma :: real
  delta :: real

type_synonym model_keys = "string \<rightharpoonup> model_config"

subsection \<open>Library operations used by the source\<close>

text \<open>\<open>str.encode()\<close> on the UTF-8 representation.\<close>

definition encode :: "string \<Rightarrow> bytes" where
  "encode s = map of_char s"

text \<open>\<open>int.from_bytes(bs, "big")\<close>: the most significant byte comes first.\<close>

definition from_bytes_big :: "bytes \<Rightarrow> nat" where
  "from_bytes_big bs = foldl (\<lambda>acc b. acc * 256 + unat b) 0 bs"


text \<open>The largest finite double, \<open>(2^53 - 1) * 2^971\<close>.\<close>

definition max_float :: real where
  "max_float = (2 ^ 53 - 1) * 2 ^ 971"

text \<open>\<open>math.exp\<close> raises \<open>OverflowError\<close> when the result is out of the float range.\<close>

definition math_exp :: "real \<Rightarrow> py_error + real" where
  "math_exp x = (if exp x > max_float then Inl OverflowError else Inr (exp x))"

text \<open>\<open>math.sqrt\<close> raises \<open>ValueError\<close> (math domain error) below zero.\<close>

definition math_sqrt :: "real \<Rightarrow> py_error + real" where
  "math_sqrt x = (if x < 0 then Inl ValueError else Inr (sqrt x))"

text \<open>Float division raises \<open>ZeroDivisionError\<close> on a zero divisor.\<close>

definition truediv :: "real \<Rightarrow> real \<Rightarrow> py_error + real" where
  "truediv a b = (if b = 0 then Inl ZeroDivisionError else Inr (a / b))"

subsection \<open>The key store\<close>

definition register_model ::
  "model_keys \<Rightarrow> string \<Rightarrow> string list \<Rightarrow> string \<Rightarrow> real \<Rightarrow> real \<Rightarrow> model_keys" where
  "register_model MODEL_KEYS model_id vocabulary sec g d =
     MODEL_KEYS(model_id \<mapsto>
       \<lparr>vocab = vocabulary, secret = encode sec, gamma = g, delta = d\<rparr>)"

subsection \<open>The green-list oracle\<close>

definition is_green :: "hmac \<Rightarrow> bytes \<Rightarrow> string \<Rightarrow> string \<Rightarrow> real \<Rightarrow> bool" where
  "is_green H sec prev_token token g =
     (let data = encode (prev_token @ token);
          digest = H sec data;
          u = real (from_bytes_big (take 8 digest)) / 2 ^ 64
      in u < g)"

subsection \<open>The biased sampler\<close>

text \<open>
  The first loop of \<open>select_watermarked_token\<close>: each item is boosted when it is green,
  stored in the dictionary \<open>boosted\<close> (an assignment to a key keeps the key's place, a new
  key goes last) and added to \<open>total\<close>.
\<close>

definition boost_loop ::
  "hmac \<Rightarrow> bytes \<Rightarrow> real \<Rightarrow> real \<Rightarrow> string \<Rightarrow> (string \<times> real) list \<Rightarrow>
     (string \<times> real) list \<times> real" where
  "boost_loop H sec g alpha prev_token distribution =
     fold (\<lambda>(tok, p) (boosted, total).
             let w = (if is_green H sec prev_token tok g then p * alpha else p)
             in (AList.update tok w boosted, total + w))
       distribution ([], 0)"

text \<open>The second loop: \<open>boosted[tok] /= total\<close> for each key, in order.\<close>

fun normalize :: "(string \<times> real) list \<Rightarrow> real \<Rightarrow> py_error + (string \<times> real) list" where
  "normalize [] tot = Inr []"
| "normalize ((tok, w) # rest) tot =
     (case truediv w tot of
        Inl e \<Rightarrow> Inl e
      | Inr q \<Rightarrow>
          (case normalize rest tot of
             Inl e \<Rightarrow> Inl e
           | Inr rest' \<Rightarrow> Inr ((tok, q) # rest')))"

text \<open>
  \<open>tokens, weights = zip(*boosted.items())\<close>: with no item, \<open>zip()\<close> yields nothing and
  the unpacking into two names raises \<open>ValueError\<close>.
\<close>

definition unzip_items :: "(string \<times> real) list \<Rightarrow> py_error + (string list \<times> real list)" where
  "unzip_items items =
     (if items = [] then Inl ValueError else Inr (map fst items, map snd items))"

text \<open>\<open>itertools.accumulate\<close>: the running sums.\<close>

fun accumulate_from :: "real \<Rightarrow> real list \<Rightarrow> real list" where
  "accumulate_from acc [] = []"
| "accumulate_from acc (w # ws) = (acc + w) # accumulate_from (acc + w) ws"

definition accumulate :: "real list \<Rightarrow> real list" where
  "accumulate ws = (case ws of [] \<Rightarrow> [] | w # rest \<Rightarrow> w # accumulate_from w rest)"

text \<open>\<open>bisect.bisect(a, x, lo, hi)\<close>: the binary search of the standard library.\<close>

function bisect_right :: "real list \<Rightarrow> real \<Rightarrow> nat \<Rightarrow> nat \<Rightarrow> nat" where
  "bisect_right a x lo hi =
     (if lo < hi then
        (let mid = (lo + hi) div 2
         in if x < a ! mid then bisect_right a x lo mid else bisect_right a x (mid + 1) hi)
      else lo)"
  by pat_completeness auto
termination
  by (relation "measure (\<lambda>(a, x, lo, hi). hi - lo)") auto

declare bisect_right.simps [simp del]

text \<open>
  \<open>random.choices(population, weights, k=1)[0]\<close>, with \<open>r\<close> the value of \<open>random()\<close>:
  the cumulative weights, the check of their number, of the total, and the bisection
  between \<open>0\<close> and \<open>n - 1\<close>.
\<close>

definition random_choices :: "real \<Rightarrow> string list \<Rightarrow> real list \<Rightarrow> py_error + string" where
  "random_choices r population weights =
     (let n = length population;
          cum_weights = accumulate weights
      in if length cum_weights \<noteq> n then Inl ValueError
         else if cum_weights = [] then Inl IndexError
         else (let total = last cum_weights
               in if total \<le> 0 then Inl ValueError
                  else Inr (population ! bisect_right cum_weights (r * total) 0 (n - 1))))"

text \<open>
  Everything \<open>select_watermarked_token\<close> does before it samples: the lookup, \<open>alpha\<close>,
  the two loops and the unpacking. The result is the pair handed to \<open>random.choices\<close>.
\<close>

definition sampling_weights ::
  "hmac \<Rightarrow> model_keys \<Rightarrow> string \<Rightarrow> (string \<times> real) list \<Rightarrow> string \<Rightarrow>
     py_error + (string list \<times> real list)" where
  "sampling_weights H MODEL_KEYS model_id distribution prev_token =
     (case MODEL_KEYS model_id of
        None \<Rightarrow> Inl KeyError
      | Some model \<Rightarrow>
          (case math_exp (delta model) of
             Inl e \<Rightarrow> Inl e
           | Inr alpha \<Rightarrow>
               (let (boosted, total) =
                      boost_loop H (secret model) (gamma model) alpha prev_token distribution
                in case normalize boosted total of
                     Inl e \<Rightarrow> Inl e
                   | Inr normalized \<Rightarrow> unzip_items normalized)))"

definition select_watermarked_token ::
  "hmac \<Rightarrow> real \<Rightarrow> model_keys \<Rightarrow> string \<Rightarrow> (string \<times> real) list \<Rightarrow> string \<Rightarrow>
     py_error + string" where
  "select_watermarked_token H r MODEL_KEYS model_id distribution prev_token =
     (case sampling_weights H MODEL_KEYS model_id distribution prev_token of
        Inl e \<Rightarrow> Inl e
      | Inr (tokens, weights) \<Rightarrow> random_choices r tokens weights)"

subsection \<open>The detector\<close>

text \<open>The counting loop of \<open>detect_watermark\<close> over \<open>enumerate(tokens)\<close>.\<close>

definition count_green :: "hmac \<Rightarrow> bytes \<Rightarrow> real \<Rightarrow> string list \<Rightarrow> nat" where
  "count_green H sec g tokens =
     fold (\<lambda>(i, tok) count.
             let prev = (if i > 0 then tokens ! (i - 1) else [])
             in if is_green H sec prev tok g then count + 1 else count)
       (enumerate 0 tokens) 0"

definition detect_watermark ::
  "hmac \<Rightarrow> model_keys \<Rightarrow> string \<Rightarrow> string list \<Rightarrow> py_error + real" where
  "detect_watermark H MODEL_KEYS model_id tokens =
     (case MODEL_KEYS model_id of
        None \<Rightarrow> Inl KeyError
      | Some model \<Rightarrow>
          (let sec = secret model;
               g = gamma model;
               count = count_green H sec g tokens;
               T = length tokens
           in if T = 0 then Inr 0
              else (case math_sqrt (real T * g * (1 - g)) of
                      Inl e \<Rightarrow> Inl e
                    | Inr s \<Rightarrow> truediv (real count - g * real T) s)))"

subsection \<open>The registration endpoint\<close>

text \<open>
  The request model \<open>RegisterRequest\<close> constrains \<open>gamma\<close> with \<open>ge=0.0, le=1.0\<close> and
  \<open>delta\<close> with \<open>ge=0.0\<close>; \<open>model_id\<close>, \<open>vocab\<close> and \<open>secret\<close> carry no constraint.
\<close>

definition RegisterRequest_valid :: "real \<Rightarrow> real \<Rightarrow> bool" where
  "RegisterRequest_valid g d = (0 \<le> g \<and> g \<le> 1 \<and> 0 \<le> d)"

text \<open>
  \<open>POST /register\<close>: a request that violates the constraints is refused with a
  validation error before \<open>register\<close> runs; otherwise \<open>register\<close> calls
  \<open>register_model\<close> and answers \<open>{"status": "registered"}\<close>. The result is the answer
  together with \<open>MODEL_KEYS\<close> after the call.
\<close>

definition register ::
  "model_keys \<Rightarrow> string \<Rightarrow> string list \<Rightarrow> string \<Rightarrow> real \<Rightarrow> real \<Rightarrow>
     (py_error + string) \<times> model_keys" where
  "register MODEL_KEYS model_id vocabulary sec g d =
     (if RegisterRequest_valid g d
      then (Inr ''registered'', register_model MODEL_KEYS model_id vocabulary sec g d)
      else (Inl ValidationError, MODEL_KEYS))"

subsection \<open>Notions of the specification\<close>




section \<open>Properties\<close>

subsection \<open>The oracle\<close>







subsection \<open>The sampler: auxiliary facts\<close>

















subsection \<open>The detector\<close>






text \<open>
  C7. For a registered model whose \<open>gamma\<close> is exactly \<open>0\<close> or exactly \<open>1\<close>,
  \<open>detect_watermark\<close> on a non-empty sequence raises \<open>ZeroDivisionError\<close>, which Python
  classes as an \<open>ArithmeticError\<close>; no score is returned.
\<close>

theorem detect_watermark_zero_variance:
  assumes "MODEL_KEYS model_id = Some model"
    and "gamma model = 0 \<or> gamma model = 1"
    and "tokens \<noteq> []"
  shows "detect_watermark H MODEL_KEYS model_id tokens = Inl ZeroDivisionError
     \<and> is_ArithmeticError ZeroDivisionError"
  using assms by (auto simp: detect_watermark_def Let_def math_sqrt_def truediv_def)

text \<open>
  Instances with \<open>gamma = 1\<close> and with \<open>gamma = 0\<close>.
\<close>

theorem detect_watermark_zero_variance_witness:
  "\<forall>H. detect_watermark H (register_model Map.empty ''m'' [] ''k1'' 1 2) ''m'' [''a''] =
         Inl ZeroDivisionError
     \<and> detect_watermark H (register_model Map.empty ''m'' [] ''k1'' 0 2) ''m'' [''a''] =
         Inl ZeroDivisionError"
proof (intro allI conjI)
  fix H
  have r1: "register_model Map.empty ''m'' [] ''k1'' 1 2 ''m'' =
      Some \<lparr>vocab = [], secret = encode ''k1'', gamma = 1, delta = 2\<rparr>"
    by (simp add: register_model_def)
  show "detect_watermark H (register_model Map.empty ''m'' [] ''k1'' 1 2) ''m'' [''a''] =
      Inl ZeroDivisionError"
    using detect_watermark_zero_variance
      [where MODEL_KEYS = "register_model Map.empty ''m'' [] ''k1'' 1 2" and model_id = "''m''"
         and tokens = "[''a'']" and H = H, OF r1]
    by simp
  have r0: "register_model Map.empty ''m'' [] ''k1'' 0 2 ''m'' =
      Some \<lparr>vocab = [], secret = encode ''k1'', gamma = 0, delta = 2\<rparr>"
    by (simp add: register_model_def)
  show "detect_watermark H (register_model Map.empty ''m'' [] ''k1'' 0 2) ''m'' [''a''] =
      Inl ZeroDivisionError"
    using detect_watermark_zero_variance
      [where MODEL_KEYS = "register_model Map.empty ''m'' [] ''k1'' 0 2" and model_id = "''m''"
         and tokens = "[''a'']" and H = H, OF r0]
    by simp
qed

text \<open>
  C8. For a model id that \<open>MODEL_KEYS\<close> does not hold, \<open>select_watermarked_token\<close>
  and \<open>detect_watermark\<close> both fail at the lookup, with \<open>KeyError\<close> (the source's
  not-found error); neither function changes \<open>MODEL_KEYS\<close>.
\<close>

theorem unregistered_model_KeyError:
  assumes "MODEL_KEYS model_id = None"
  shows "select_watermarked_token H r MODEL_KEYS model_id distribution prev_token = Inl KeyError
     \<and> detect_watermark H MODEL_KEYS model_id tokens = Inl KeyError"
  using assms
  by (simp add: select_watermarked_token_def sampling_weights_def detect_watermark_def)

text \<open>
  An instance: only \<open>m\<close> is registered and \<open>other\<close> is asked for.
\<close>

theorem unregistered_model_KeyError_witness:
  "\<forall>H r. select_watermarked_token H r (register_model Map.empty ''m'' [] ''k1'' (1/2) 2)
            ''other'' [(''a'', 1/2), (''b'', 1/2)] [] = Inl KeyError
     \<and> detect_watermark H (register_model Map.empty ''m'' [] ''k1'' (1/2) 2)
            ''other'' [''a'', ''b''] = Inl KeyError"
proof (intro allI)
  fix H r
  have "register_model Map.empty ''m'' [] ''k1'' (1/2) 2 ''other'' = None"
    by (simp add: register_model_def)
  from unregistered_model_KeyError
    [where MODEL_KEYS = "register_model Map.empty ''m'' [] ''k1'' (1/2) 2"
       and model_id = "''other''", OF this]
  show "select_watermarked_token H r (register_model Map.empty ''m'' [] ''k1'' (1/2) 2)
            ''other'' [(''a'', 1/2), (''b'', 1/2)] [] = Inl KeyError
     \<and> detect_watermark H (register_model Map.empty ''m'' [] ''k1'' (1/2) 2)
            ''other'' [''a'', ''b''] = Inl KeyError" .
qed

text \<open>
  C9. For a registered model, \<open>detect_watermark\<close> on the empty sequence returns
  \<open>0.0\<close>, whatever the stored \<open>gamma\<close>, \<open>delta\<close> and secret.
\<close>

theorem detect_watermark_empty:
  assumes "MODEL_KEYS model_id = Some model"
  shows "detect_watermark H MODEL_KEYS model_id [] = Inr 0"
  using assms by (simp add: detect_watermark_def Let_def)

text \<open>
  An instance with \<open>gamma = 1\<close>, where a non-empty sequence would raise.
\<close>

theorem detect_watermark_empty_witness:
  "\<forall>H. detect_watermark H (register_model Map.empty ''m'' [] ''k1'' 1 2) ''m'' [] = Inr 0"
proof
  fix H
  have "register_model Map.empty ''m'' [] ''k1'' 1 2 ''m'' =
      Some \<lparr>vocab = [], secret = encode ''k1'', gamma = 1, delta = 2\<rparr>"
    by (simp add: register_model_def)
  from detect_watermark_empty
    [where MODEL_KEYS = "register_model Map.empty ''m'' [] ''k1'' 1 2" and model_id = "''m''",
     OF this]
  show "detect_watermark H (register_model Map.empty ''m'' [] ''k1'' 1 2) ''m'' [] = Inr 0" .
qed

subsection \<open>The sampler\<close>


























subsection \<open>Registration\<close>

text \<open>
  C6, as the code has it. \<open>POST /register\<close> refuses a request exactly when \<open>gamma\<close>
  is outside \<open>[0, 1]\<close> or \<open>delta\<close> is negative, and then leaves \<open>MODEL_KEYS\<close> as it was;
  otherwise, whatever the secret, it stores the configuration under \<open>model_id\<close> through
  \<open>register_model\<close>. \<open>register_model\<close> itself checks nothing: it always installs or
  overwrites the entry of \<open>model_id\<close> as a whole and keeps every other entry.
\<close>

theorem register_validates_gamma_delta_only:
  "register MODEL_KEYS model_id vocabulary sec g d =
     (if 0 \<le> g \<and> g \<le> 1 \<and> 0 \<le> d
      then (Inr ''registered'', register_model MODEL_KEYS model_id vocabulary sec g d)
      else (Inl ValidationError, MODEL_KEYS))
   \<and> register_model MODEL_KEYS model_id vocabulary sec g d model_id =
       Some \<lparr>vocab = vocabulary, secret = encode sec, gamma = g, delta = d\<rparr>
   \<and> (\<forall>other. other \<noteq> model_id \<longrightarrow>
         register_model MODEL_KEYS model_id vocabulary sec g d other = MODEL_KEYS other)"
  by (simp add: register_def RegisterRequest_valid_def register_model_def)

text \<open>
  Instances: \<open>gamma = 1.5\<close> and \<open>delta = -1\<close> are refused, the scenario's registration
  succeeds.
\<close>

theorem register_validates_gamma_delta_only_witness:
  "register Map.empty ''m'' [] ''k1'' (3/2) 2 = (Inl ValidationError, Map.empty)
   \<and> register Map.empty ''m'' [] ''k1'' (1/2) (- 1) = (Inl ValidationError, Map.empty)
   \<and> fst (register Map.empty ''m'' [] ''k1'' (1/2) 2) = Inr ''registered''
   \<and> snd (register Map.empty ''m'' [] ''k1'' (1/2) 2) ''m'' =
        Some \<lparr>vocab = [], secret = encode ''k1'', gamma = 1/2, delta = 2\<rparr>
   \<and> snd (register Map.empty ''m'' [] ''k1'' (1/2) 2) ''other'' = None"
  using register_validates_gamma_delta_only [of Map.empty "''m''" "[]" "''k1''" "3/2" 2]
    register_validates_gamma_delta_only [of Map.empty "''m''" "[]" "''k1''" "1/2" "- 1"]
    register_validates_gamma_delta_only [of Map.empty "''m''" "[]" "''k1''" "1/2" 2]
  by simp

text \<open>
  C6 as stated fails: a registration with the empty secret succeeds, and
  \<open>register_model\<close> called directly accepts \<open>gamma = 1.5\<close> and \<open>delta = -1\<close>.
\<close>

theorem register_empty_secret_counterexample:
  "register Map.empty ''m'' [] [] (1/2) 2 =
     (Inr ''registered'',
      Map.empty(''m'' \<mapsto> \<lparr>vocab = [], secret = [], gamma = 1/2, delta = 2\<rparr>))
   \<and> register_model Map.empty ''m'' [] ''k1'' (3/2) (- 1) ''m'' =
       Some \<lparr>vocab = [], secret = encode ''k1'', gamma = 3/2, delta = - 1\<rparr>"
  by (simp add: register_def RegisterRequest_valid_def register_model_def encode_def)

end
